theory Spec2Isabelle
  imports Complex_Main "HOL-Library.Multiset"
begin

section \<open>Values, exceptions and the HTTP boundary\<close>

text \<open>
  Decoded JSON values, as \<^verbatim>\<open>response.json()\<close> and the configuration store hold them.
  An object is the decoded dict as an association list; \<open>map_of\<close> is the dict lookup.
  Python floats are modelled by rationals: the code only tests them against zero and
  copies them. Strings are \<open>string\<close>; one element stands for one code point of a Python
  \<^verbatim>\<open>str\<close>.
\<close>

datatype json =
    JNull
  | JBool bool
  | JInt int
  | JFloat rat
  | JStr string
  | JArr "json list"
  | JObj "(string \<times> json) list"

text \<open>The Python exceptions the modelled code can meet; the strings are \<^verbatim>\<open>str(e)\<close>
  or its parts.\<close>

datatype exn =
    Timeout
  | ConnectionError
  | JSONDecodeError string
  | AttributeError string string
  | KeyError string
  | TypeError string
  | ValueError string
  | OSError string
  | UnicodeEncodeError string
  | OtherException string

definition quote :: "string \<Rightarrow> string" where
  "quote s = [char_of (39::nat)] @ s @ [char_of (39::nat)]"

fun exn_str :: "exn \<Rightarrow> string" where
  "exn_str Timeout = []"
| "exn_str ConnectionError = []"
| "exn_str (JSONDecodeError m) = m"
| "exn_str (AttributeError ty attr) =
     quote ty @ '' object has no attribute '' @ quote attr"
| "exn_str (KeyError k) = quote k"
| "exn_str (TypeError m) = m"
| "exn_str (ValueError m) = m"
| "exn_str (OSError m) = m"
| "exn_str (UnicodeEncodeError m) = m"
| "exn_str (OtherException m) = m"

fun type_name :: "json \<Rightarrow> string" where
  "type_name JNull = ''NoneType''"
| "type_name (JBool _) = ''bool''"
| "type_name (JInt _) = ''int''"
| "type_name (JFloat _) = ''float''"
| "type_name (JStr _) = ''str''"
| "type_name (JArr _) = ''list''"
| "type_name (JObj _) = ''dict''"

text \<open>\<^verbatim>\<open>x.get(key, default)\<close>: only a dict has the method.\<close>

fun json_get :: "json \<Rightarrow> string \<Rightarrow> json \<Rightarrow> exn + json" where
  "json_get (JObj kvs) k d = Inr (case map_of kvs k of None \<Rightarrow> d | Some v \<Rightarrow> v)"
| "json_get x k d = Inl (AttributeError (type_name x) ''get'')"

text \<open>\<^verbatim>\<open>x[key]\<close> with a string key.\<close>

fun json_item :: "json \<Rightarrow> string \<Rightarrow> exn + json" where
  "json_item (JObj kvs) k = (case map_of kvs k of None \<Rightarrow> Inl (KeyError k) | Some v \<Rightarrow> Inr v)"
| "json_item (JArr _) k = Inl (TypeError ''list indices must be integers or slices, not str'')"
| "json_item (JStr _) k = Inl (TypeError ''string indices must be integers'')"
| "json_item x k = Inl (TypeError (quote (type_name x) @ '' object is not subscriptable''))"

text \<open>What \<^verbatim>\<open>requests.post\<close> does: it raises, or it returns a response with a status
  code and a body. A body is empty, or not decodable (with the decoder's message), or
  decodes to a JSON value.\<close>

datatype body = Empty_body | Undecodable string | Json_body json

datatype http_reply = Raises exn | Response int body

fun response_json :: "body \<Rightarrow> exn + json" where
  "response_json Empty_body = Inl (JSONDecodeError ''Expecting value: line 1 column 1 (char 0)'')"
| "response_json (Undecodable m) = Inl (JSONDecodeError m)"
| "response_json (Json_body j) = Inr j"

fun content_truthy :: "body \<Rightarrow> bool" where
  "content_truthy Empty_body = False"
| "content_truthy _ = True"

section \<open>Configuration and the transport client (cli/config.py, cli/client.py)\<close>

type_synonym config = "string \<rightharpoonup> json"

definition config_get :: "config \<Rightarrow> string \<Rightarrow> json \<Rightarrow> json" where
  "config_get cfg key d = (case cfg key of None \<Rightarrow> d | Some v \<Rightarrow> v)"

text \<open>The keyword arguments of \<^verbatim>\<open>generate_text\<close>: a key is present or not.\<close>

record kwargs =
  kw_max_tokens :: "int option"
  kw_temperature :: "rat option"
  kw_user_id :: "string option"

record payload =
  p_prompt :: string
  p_max_tokens :: json
  p_temperature :: json
  p_user_id :: json

text \<open>The dict returned by \<^verbatim>\<open>generate_text\<close>; \<open>None\<close> is an absent key.\<close>

record gen_result =
  success :: bool
  data :: "json option"
  error :: "json option"
  details :: "json option"
  message :: "json option"
  status_code :: "int option"

type_synonym path = "string \<times> string"

text \<open>Per-prompt outcome dicts of the batch worker (cli/commands/batch.py). The success
  dict has no \<^verbatim>\<open>content_filtered\<close> key and the failure dict has no
  \<^verbatim>\<open>output_file\<close>; the \<open>get_\<close> functions are the \<^verbatim>\<open>r.get(...)\<close> reads.\<close>

datatype outcome =
    Success_outcome nat string path rat json
  | Failure_outcome bool nat string json rat

fun get_success :: "outcome \<Rightarrow> bool" where
  "get_success (Success_outcome i p f t m) = True"
| "get_success (Failure_outcome c i p e t) = False"

fun get_content_filtered :: "outcome \<Rightarrow> bool" where
  "get_content_filtered (Success_outcome i p f t m) = False"
| "get_content_filtered (Failure_outcome c i p e t) = c"

fun get_index :: "outcome \<Rightarrow> nat" where
  "get_index (Success_outcome i p f t m) = i"
| "get_index (Failure_outcome c i p e t) = i"

fun get_prompt :: "outcome \<Rightarrow> string" where
  "get_prompt (Success_outcome i p f t m) = p"
| "get_prompt (Failure_outcome c i p e t) = p"

fun get_processing_time :: "outcome \<Rightarrow> rat" where
  "get_processing_time (Success_outcome i p f t m) = t"
| "get_processing_time (Failure_outcome c i p e t) = t"


fun get_error :: "outcome \<Rightarrow> json option" where
  "get_error (Success_outcome i p f t m) = None"
| "get_error (Failure_outcome c i p e t) = Some e"

text \<open>The same outcome with its elapsed time erased.\<close>

fun strip_time :: "outcome \<Rightarrow> outcome" where
  "strip_time (Success_outcome i p f t m) = Success_outcome i p f 0 m"
| "strip_time (Failure_outcome c i p e t) = Failure_outcome c i p e 0"

text \<open>The three outcome kinds of the specification, read off an outcome dict.\<close>

datatype variant = Success | Failure | ContentFiltered

definition variant_of :: "outcome \<Rightarrow> variant" where
  "variant_of r =
     (if get_success r then Success
      else if get_content_filtered r then ContentFiltered else Failure)"

record summary =
  s_input_file :: string
  s_total_prompts :: int
  s_successful :: int
  s_failed :: int
  s_content_filtered :: int
  s_output_directory :: string
  s_processing_time :: rat
  s_results :: "outcome list"

datatype file_content = Text string | Json_summary summary

datatype stream = Stdout | Stderr

datatype status = Check_mark | Cross_mark | Shield

datatype echo =
    Loaded nat string
  | No_prompts_found
  | Output_directory string
  | Starting int
  | Delay_between rat
  | Progress status nat nat nat
  | Complete
  | Successful_count int
  | Failed_count int
  | Content_filtered_count int
  | Summary_saved path
  | Files_saved string

text \<open>The mutable world: the files written, the HTTP requests sent (in order), and
  what \<^verbatim>\<open>click.echo\<close> printed.\<close>

record world =
  files :: "path \<rightharpoonup> file_content"
  posts :: "payload list"
  echoes :: "(stream \<times> echo) list"

text \<open>What the run does not control: the backend's reply to a request, which files cannot
  be opened for writing, which writes to an opened file fail, whether the output
  directory can be made, the prompts the input file holds, the wall-clock time each
  worker measures, and the order in which the futures complete. A write that fails
  raises (\<^verbatim>\<open>OSError\<close> on a full disk, \<^verbatim>\<open>UnicodeEncodeError\<close> on a text that has no
  UTF-8 encoding) and leaves some text in the file, none or a part of what was to be
  written; \<open>write_error\<close> gives the exception and the text left.\<close>

record env =
  post :: "payload \<Rightarrow> http_reply"
  open_error :: "path \<Rightarrow> exn option"
  write_error :: "path \<Rightarrow> file_content \<Rightarrow> (exn \<times> string) option"
  mkdir_error :: "string \<Rightarrow> exn option"
  load_prompts :: "string \<Rightarrow> exn + string list"
  elapsed :: "nat \<Rightarrow> rat"
  schedule :: "nat list"

definition click_echo :: "stream \<Rightarrow> echo \<Rightarrow> world \<Rightarrow> world" where
  "click_echo s m w = w\<lparr>echoes := echoes w @ [(s, m)]\<rparr>"

subsection \<open>GenAIClient.generate_text\<close>

definition build_payload :: "config \<Rightarrow> string \<Rightarrow> kwargs \<Rightarrow> payload" where
  "build_payload cfg prompt kw =
     \<lparr>p_prompt = prompt,
      p_max_tokens = (case kw_max_tokens kw of Some v \<Rightarrow> JInt v
                      | None \<Rightarrow> config_get cfg ''default_max_tokens'' (JInt 1000)),
      p_temperature = (case kw_temperature kw of Some v \<Rightarrow> JFloat v
                       | None \<Rightarrow> config_get cfg ''default_temperature'' (JFloat (7 / 10))),
      p_user_id = (case kw_user_id kw of Some v \<Rightarrow> JStr v
                   | None \<Rightarrow> config_get cfg ''default_user_id'' (JStr ''cli_user''))\<rparr>"

definition failure_result :: "json \<Rightarrow> int \<Rightarrow> gen_result" where
  "failure_result e code =
     \<lparr>success = False, data = None, error = Some e, details = None, message = None,
      status_code = Some code\<rparr>"

text \<open>The body of the \<^verbatim>\<open>try\<close> block, from the reply of \<^verbatim>\<open>requests.post\<close> on.\<close>

definition try_block :: "http_reply \<Rightarrow> exn + gen_result" where
  "try_block reply =
     (case reply of
        Raises e \<Rightarrow> Inl e
      | Response code b \<Rightarrow>
          if code = 200 then
            (case response_json b of
               Inl e \<Rightarrow> Inl e
             | Inr result \<Rightarrow>
                 Inr \<lparr>success = True, data = Some result, error = None, details = None,
                      message = None, status_code = Some code\<rparr>)
          else if code = 400 then
            (case response_json b of
               Inl e \<Rightarrow> Inl e
             | Inr error_data \<Rightarrow>
                 (case json_get error_data ''error'' (JStr ''Bad request'') of
                    Inl e \<Rightarrow> Inl e
                  | Inr err \<Rightarrow>
                      (case json_get error_data ''details'' (JObj []) of
                         Inl e \<Rightarrow> Inl e
                       | Inr det \<Rightarrow>
                           (case json_get error_data ''message'' (JStr []) of
                              Inl e \<Rightarrow> Inl e
                            | Inr msg \<Rightarrow>
                                Inr \<lparr>success = False, data = None, error = Some err,
                                     details = Some det, message = Some msg,
                                     status_code = Some code\<rparr>))))
          else
            (case (if content_truthy b then response_json b else Inr (JObj [])) of
               Inl e \<Rightarrow> Inl e
             | Inr error_data \<Rightarrow>
                 (case json_get error_data ''error'' (JStr ''Unknown API error'') of
                    Inl e \<Rightarrow> Inl e
                  | Inr err \<Rightarrow> Inr (failure_result err code))))"

text \<open>The \<^verbatim>\<open>except\<close> clauses, in the source's order; the last one catches every
  other \<^verbatim>\<open>Exception\<close>.\<close>

fun except_clauses :: "exn \<Rightarrow> exn + gen_result" where
  "except_clauses Timeout =
     Inr (failure_result (JStr ''Request timeout - API took too long to respond'') 408)"
| "except_clauses ConnectionError =
     Inr (failure_result (JStr ''Connection error - Could not reach API'') 503)"
| "except_clauses (JSONDecodeError m) =
     Inr (failure_result (JStr (''Invalid JSON response: '' @ m)) 500)"
| "except_clauses e =
     Inr (failure_result (JStr (''Unexpected error: '' @ exn_str e)) 500)"

definition generate_text ::
  "env \<Rightarrow> config \<Rightarrow> string \<Rightarrow> kwargs \<Rightarrow> world \<Rightarrow> (exn + gen_result) \<times> world" where
  "generate_text ev cfg prompt kw w =
     (let pl = build_payload cfg prompt kw;
          w1 = w\<lparr>posts := posts w @ [pl]\<rparr>
      in (case try_block (post ev pl) of
            Inr r \<Rightarrow> (Inr r, w1)
          | Inl e \<Rightarrow> (except_clauses e, w1)))"

section \<open>The batch dispatcher (cli/commands/batch.py)\<close>

subsection \<open>process_single_prompt\<close>

text \<open>Decimal digits of a natural number, and the format \<^verbatim>\<open>:04d\<close> of a non-negative
  integer: at least four characters, padded with zeros on the left.\<close>

definition digit_char :: "nat \<Rightarrow> char" where
  "digit_char d = ''0123456789'' ! d"

fun str_nat :: "nat \<Rightarrow> string" where
  "str_nat n = (if n < 10 then [digit_char n] else str_nat (n div 10) @ [digit_char (n mod 10)])"

declare str_nat.simps [simp del]

definition format_04d :: "nat \<Rightarrow> string" where
  "format_04d n = replicate (4 - length (str_nat n)) (CHR ''0'') @ str_nat n"

definition result_filename :: "nat \<Rightarrow> string" where
  "result_filename index = ''result_'' @ format_04d (index + 1) @ ''.txt''"


text \<open>\<^verbatim>\<open>prompt[:100] + '...' if len(prompt) > 100 else prompt\<close>\<close>

definition truncate_prompt :: "string \<Rightarrow> string" where
  "truncate_prompt prompt =
     (if length prompt > 100 then take 100 prompt @ ''...'' else prompt)"

text \<open>The \<^verbatim>\<open>params\<close> dict: each option is tested for truthiness, so \<open>None\<close>, the
  number zero and the empty string all leave the key out.\<close>

definition build_params :: "int option \<Rightarrow> rat option \<Rightarrow> string option \<Rightarrow> kwargs" where
  "build_params max_tokens temperature user_id =
     \<lparr>kw_max_tokens = (case max_tokens of None \<Rightarrow> None
                        | Some v \<Rightarrow> if v \<noteq> 0 then Some v else None),
      kw_temperature = (case temperature of None \<Rightarrow> None
                         | Some v \<Rightarrow> if v \<noteq> 0 then Some v else None),
      kw_user_id = (case user_id of None \<Rightarrow> None
                     | Some v \<Rightarrow> if v \<noteq> [] then Some v else None)\<rparr>"

text \<open>The \<^verbatim>\<open>with open(...) as f: f.write(result['data']['generated_text'])\<close> statement:
  the file is opened (created or emptied) first, then the text is looked up, then
  written; the write, or the close that flushes it, can fail.\<close>

definition write_result :: "env \<Rightarrow> path \<Rightarrow> gen_result \<Rightarrow> world \<Rightarrow> (exn + unit) \<times> world" where
  "write_result ev output_file result w =
     (case open_error ev output_file of
        Some e \<Rightarrow> (Inl e, w)
      | None \<Rightarrow>
          (let w1 = w\<lparr>files := (files w)(output_file \<mapsto> Text [])\<rparr>
           in case data result of
                None \<Rightarrow> (Inl (KeyError ''data''), w1)
              | Some d \<Rightarrow>
                  (case json_item d ''generated_text'' of
                     Inl e \<Rightarrow> (Inl e, w1)
                   | Inr (JStr text) \<Rightarrow>
                       (case write_error ev output_file (Text text) of
                          Some (e, left) \<Rightarrow>
                            (Inl e, w1\<lparr>files := (files w1)(output_file \<mapsto> Text left)\<rparr>)
                        | None \<Rightarrow>
                            (Inr (), w1\<lparr>files := (files w1)(output_file \<mapsto> Text text)\<rparr>))
                   | Inr v \<Rightarrow>
                       (Inl (TypeError (''write() argument must be str, not '' @ type_name v)),
                        w1))))"

text \<open>\<^verbatim>\<open>result.get('status_code') == 400 and
  result.get('details', {}).get('reason') == 'Content policy violation'\<close>\<close>

definition is_content_filtered :: "gen_result \<Rightarrow> exn + bool" where
  "is_content_filtered result =
     (if status_code result = Some 400 then
        (case json_get (case details result of None \<Rightarrow> JObj [] | Some d \<Rightarrow> d) ''reason'' JNull of
           Inl e \<Rightarrow> Inl e
         | Inr reason \<Rightarrow> Inr (reason = JStr ''Content policy violation''))
      else Inr False)"

definition process_single_prompt ::
  "env \<Rightarrow> config \<Rightarrow> string \<Rightarrow> nat \<Rightarrow> int option \<Rightarrow> rat option \<Rightarrow> string option \<Rightarrow> string
     \<Rightarrow> world \<Rightarrow> (exn + outcome) \<times> world" where
  "process_single_prompt ev cfg prompt index max_tokens temperature user_id output_path w =
     (let params = build_params max_tokens temperature user_id
      in case generate_text ev cfg prompt params w of
           (Inl e, w1) \<Rightarrow> (Inl e, w1)
         | (Inr result, w1) \<Rightarrow>
             (let processing_time = elapsed ev index
              in if success result then
                   (let output_file = (output_path, result_filename index)
                    in case write_result ev output_file result w1 of
                         (Inl e, w2) \<Rightarrow> (Inl e, w2)
                       | (Inr u, w2) \<Rightarrow>
                           (case data result of
                              None \<Rightarrow> (Inl (KeyError ''data''), w2)
                            | Some d \<Rightarrow>
                                (case json_get d ''metadata'' (JObj []) of
                                   Inl e \<Rightarrow> (Inl e, w2)
                                 | Inr metadata \<Rightarrow>
                                     (Inr (Success_outcome index (truncate_prompt prompt)
                                             output_file processing_time metadata), w2))))
                 else
                   (case is_content_filtered result of
                      Inl e \<Rightarrow> (Inl e, w1)
                    | Inr cf \<Rightarrow>
                        (Inr (Failure_outcome cf index (truncate_prompt prompt)
                                (case error result of None \<Rightarrow> JStr ''Unknown error''
                                 | Some e \<Rightarrow> e)
                                processing_time), w1))))"

text \<open>The classification as the specification words it, with the reason text it compares
  against as a parameter: a successful result is a Success; an unsuccessful result with
  status code 400 whose structured detail reason equals the given text is
  ContentFiltered; every other unsuccessful result is a Failure.\<close>

definition detail_reason :: "gen_result \<Rightarrow> json option" where
  "detail_reason result =
     (case details result of
        Some (JObj kvs) \<Rightarrow> map_of kvs ''reason''
      | _ \<Rightarrow> None)"

definition spec_classify :: "string \<Rightarrow> gen_result \<Rightarrow> variant" where
  "spec_classify reason result =
     (if success result then Success
      else if status_code result = Some 400 \<and> detail_reason result = Some (JStr reason)
      then ContentFiltered
      else Failure)"

subsection \<open>process_prompts_concurrent\<close>

text \<open>The pool runs every submitted job; \<open>run_workers\<close> runs them in the order of the
  schedule and keeps each future's result (an outcome or the exception the job raised)
  beside its index, as \<^verbatim>\<open>future_to_index\<close> does.\<close>

fun run_workers ::
  "(nat \<Rightarrow> world \<Rightarrow> (exn + outcome) \<times> world) \<Rightarrow> nat list \<Rightarrow> world
     \<Rightarrow> (nat \<times> (exn + outcome)) list \<times> world" where
  "run_workers job [] w = ([], w)"
| "run_workers job (i # rest) w =
     (case job i w of
        (r, w1) \<Rightarrow>
          (case run_workers job rest w1 of
             (rs, w2) \<Rightarrow> ((i, r) # rs, w2)))"

definition progress_status :: "outcome \<Rightarrow> status" where
  "progress_status result =
     (if get_content_filtered result then Shield
      else if get_success result then Check_mark else Cross_mark)"

text \<open>The loop over \<^verbatim>\<open>as_completed\<close>: \<^verbatim>\<open>future.result()\<close> re-raises the exception
  of a job that raised, which leaves the loop and the function.\<close>

fun collect ::
  "nat \<Rightarrow> (nat \<times> (exn + outcome)) list \<Rightarrow> outcome list \<Rightarrow> nat \<Rightarrow> world
     \<Rightarrow> (exn + outcome list) \<times> world" where
  "collect n_total [] results completed w = (Inr results, w)"
| "collect n_total ((index, Inl e) # rest) results completed w = (Inl e, w)"
| "collect n_total ((index, Inr result) # rest) results completed w =
     collect n_total rest (results @ [result]) (completed + 1)
       (click_echo Stdout
          (Progress (progress_status result) (completed + 1) n_total (index + 1)) w)"

definition process_prompts_concurrent ::
  "env \<Rightarrow> config \<Rightarrow> string list \<Rightarrow> int option \<Rightarrow> rat option \<Rightarrow> string option \<Rightarrow> int \<Rightarrow> rat
     \<Rightarrow> string \<Rightarrow> world \<Rightarrow> (exn + outcome list) \<times> world" where
  "process_prompts_concurrent ev cfg prompts max_tokens temperature user_id max_workers delay
       output_path w =
     (let n_total = length prompts;
          w0 = click_echo Stdout (Delay_between delay)
                 (click_echo Stdout (Starting max_workers) w)
      in if max_workers \<le> 0 then
           (Inl (ValueError ''max_workers must be greater than 0''), w0)
         else
           (case run_workers
                   (\<lambda>i. process_single_prompt ev cfg (prompts ! i) i max_tokens temperature
                           user_id output_path)
                   (schedule ev) w0 of
              (futures, w1) \<Rightarrow>
                (case collect n_total futures [] 0 w1 of
                   (Inl e, w2) \<Rightarrow> (Inl e, w2)
                 | (Inr results, w2) \<Rightarrow> (Inr (sort_key get_index results), w2))))"

text \<open>Every future submitted completes once: the schedule is a reordering of the
  indices of the prompts.\<close>

definition valid_schedule :: "env \<Rightarrow> string list \<Rightarrow> bool" where
  "valid_schedule ev prompts = (sort (schedule ev) = [0..<length prompts])"

text \<open>Every job of the batch returns an outcome (none raises). What a job returns does
  not depend on the world it starts in, so the check runs each job in a world of its
  own.\<close>

definition all_workers_return ::
  "env \<Rightarrow> config \<Rightarrow> string list \<Rightarrow> int option \<Rightarrow> rat option \<Rightarrow> string option
     \<Rightarrow> string \<Rightarrow> bool" where
  "all_workers_return ev cfg prompts max_tokens temperature user_id output_path =
     list_all
       (\<lambda>i. case fst (process_single_prompt ev cfg (prompts ! i) i max_tokens temperature
                          user_id output_path
                          \<lparr>files = Map.empty, posts = [], echoes = []\<rparr>) of
               Inl e \<Rightarrow> False
             | Inr r \<Rightarrow> True)
       [0..<length prompts]"

subsection \<open>process\<close>

definition make_summary :: "string \<Rightarrow> string \<Rightarrow> string list \<Rightarrow> outcome list \<Rightarrow> summary" where
  "make_summary input output prompts rs =
     (let n_successful = int (length (filter get_success rs));
          n_failed = int (length rs) - n_successful;
          n_content_filtered = int (length (filter get_content_filtered rs))
      in \<lparr>s_input_file = input,
          s_total_prompts = int (length prompts),
          s_successful = n_successful,
          s_failed = n_failed,
          s_content_filtered = n_content_filtered,
          s_output_directory = output,
          s_processing_time = sum_list (map get_processing_time rs),
          s_results = rs\<rparr>)"

definition final_echoes :: "summary \<Rightarrow> path \<Rightarrow> string \<Rightarrow> world \<Rightarrow> world" where
  "final_echoes s summary_file output w =
     (let w1 = click_echo Stdout (Failed_count (s_failed s))
                 (click_echo Stdout (Successful_count (s_successful s))
                    (click_echo Stdout Complete w));
          w2 = (if s_content_filtered s > 0
                then click_echo Stdout (Content_filtered_count (s_content_filtered s)) w1
                else w1);
          w3 = click_echo Stdout (Summary_saved summary_file) w2
      in if s_successful s > 0 then click_echo Stdout (Files_saved output) w3 else w3)"

definition process ::
  "env \<Rightarrow> config \<Rightarrow> string \<Rightarrow> string \<Rightarrow> int option \<Rightarrow> rat option \<Rightarrow> string option \<Rightarrow> int \<Rightarrow> rat
     \<Rightarrow> world \<Rightarrow> (exn + unit) \<times> world" where
  "process ev cfg input output max_tokens temperature user_id max_workers delay w =
     (case load_prompts ev input of
        Inl e \<Rightarrow> (Inl e, w)
      | Inr prompts \<Rightarrow>
          (let w1 = click_echo Stdout (Loaded (length prompts) input) w
           in if length prompts = 0 then
                (Inr (), click_echo Stderr No_prompts_found w1)
              else
                (case mkdir_error ev output of
                   Some e \<Rightarrow> (Inl e, w1)
                 | None \<Rightarrow>
                     (case process_prompts_concurrent ev cfg prompts max_tokens temperature
                             user_id max_workers delay output
                             (click_echo Stdout (Output_directory output) w1) of
                        (Inl e, w3) \<Rightarrow> (Inl e, w3)
                      | (Inr rs, w3) \<Rightarrow>
                          (let s = make_summary input output prompts rs;
                               summary_file = (output, ''batch_summary.json'')
                           in case open_error ev summary_file of
                                Some e \<Rightarrow> (Inl e, w3)
                              | None \<Rightarrow>
                                  (case write_error ev summary_file (Json_summary s) of
                                     Some (e, left) \<Rightarrow>
                                       (Inl e, w3\<lparr>files := (files w3)(summary_file \<mapsto>
                                                        Text left)\<rparr>)
                                   | None \<Rightarrow>
                                       (Inr (),
                                        final_echoes s summary_file output
                                          (w3\<lparr>files := (files w3)(summary_file \<mapsto>
                                                 Json_summary s)\<rparr>))))))))"

section \<open>Sample inputs\<close>

text \<open>A world with no files, no requests sent and nothing printed; an environment in
  which the backend answers each prompt as the given table says, one file cannot be
  opened for writing, no write to an opened file fails, the input file holds the given
  prompts and the futures complete in the given order.\<close>

definition empty_world :: world where
  "empty_world = \<lparr>files = Map.empty, posts = [], echoes = []\<rparr>"

definition sample_env ::
  "(string \<Rightarrow> http_reply) \<Rightarrow> path option \<Rightarrow> string list \<Rightarrow> nat list \<Rightarrow> env" where
  "sample_env reply locked prompts order =
     \<lparr>post = (\<lambda>pl. reply (p_prompt pl)),
      open_error = (\<lambda>f. if Some f = locked then Some (OSError ''Permission denied'') else None),
      write_error = (\<lambda>f c. None),
      mkdir_error = (\<lambda>d. None),
      load_prompts = (\<lambda>f. Inr prompts),
      elapsed = (\<lambda>i. 1),
      schedule = order\<rparr>"

definition ok_reply :: "string \<Rightarrow> http_reply" where
  "ok_reply text = Response 200 (Json_body (JObj [(''generated_text'', JStr text)]))"

definition policy_reply :: "string \<Rightarrow> http_reply" where
  "policy_reply reason =
     Response 400 (Json_body (JObj [(''error'', JStr ''Blocked''),
                                   (''details'', JObj [(''reason'', JStr reason),
                                                       (''severity'', JStr ''high'')])]))"

text \<open>A backend that blocks the prompt \<open>blocked\<close> for content policy, times out on
  \<open>slow\<close> and answers every other prompt with the prompt itself.\<close>

definition mixed_reply :: "string \<Rightarrow> http_reply" where
  "mixed_reply p =
     (if p = ''blocked'' then policy_reply ''Content policy violation''
      else if p = ''slow'' then Raises Timeout
      else ok_reply p)"

section \<open>Auxiliary facts\<close>

subsection \<open>Results do not depend on the world\<close>

lemma generate_text_fst:
  "fst (generate_text ev cfg prompt kw w) = fst (generate_text ev cfg prompt kw w0)"
  by (simp add: generate_text_def Let_def split: sum.splits)

lemma generate_text_snd:
  "snd (generate_text ev cfg prompt kw w) = w\<lparr>posts := posts w @ [build_payload cfg prompt kw]\<rparr>"
  by (simp add: generate_text_def Let_def split: sum.splits)

lemma write_result_fst:
  "fst (write_result ev f result w) = fst (write_result ev f result w0)"
  by (simp add: write_result_def Let_def split: option.splits sum.splits json.splits prod.splits)

lemma process_single_prompt_fst:
  "fst (process_single_prompt ev cfg prompt index mt t u out w) =
   fst (process_single_prompt ev cfg prompt index mt t u out w0)"
proof -
  obtain g w1 where g: "generate_text ev cfg prompt (build_params mt t u) w = (g, w1)"
    by (cases "generate_text ev cfg prompt (build_params mt t u) w")
  obtain g0 w10 where g0: "generate_text ev cfg prompt (build_params mt t u) w0 = (g0, w10)"
    by (cases "generate_text ev cfg prompt (build_params mt t u) w0")
  have gg: "g0 = g"
    using generate_text_fst [of ev cfg prompt "build_params mt t u" w w0] g g0 by simp
  show ?thesis
  proof (cases g)
    case (Inl e)
    with g g0 gg show ?thesis by (simp add: process_single_prompt_def)
  next
    case (Inr result)
    obtain a w2 where a: "write_result ev (out, result_filename index) result w1 = (a, w2)"
      by (cases "write_result ev (out, result_filename index) result w1")
    obtain a0 w20 where a0: "write_result ev (out, result_filename index) result w10 = (a0, w20)"
      by (cases "write_result ev (out, result_filename index) result w10")
    have aa: "a0 = a"
      using write_result_fst [of ev "(out, result_filename index)" result w1 w10] a a0 by simp
    from Inr g g0 gg a a0 aa show ?thesis
      by (simp add: process_single_prompt_def Let_def split: sum.splits option.splits)
  qed
qed

lemma run_workers_fst:
  assumes "\<And>i w w'. fst (job i w) = fst (job i w')"
  shows "fst (run_workers job sched w) = map (\<lambda>i. (i, fst (job i w0))) sched"
proof (induction sched arbitrary: w)
  case Nil
  show ?case by simp
next
  case (Cons i rest)
  obtain r w1 where j: "job i w = (r, w1)" by (cases "job i w")
  obtain rs w2 where rw: "run_workers job rest w1 = (rs, w2)" by (cases "run_workers job rest w1")
  have "r = fst (job i w0)" using assms [of i w w0] j by simp
  moreover have "rs = map (\<lambda>i. (i, fst (job i w0))) rest" using Cons.IH [of w1] rw by simp
  ultimately show ?case using j rw by simp
qed

lemma collect_Inr:
  assumes "collect n futs acc c w = (Inr rs, w')"
  shows "\<exists>outs. map snd futs = map Inr outs \<and> rs = acc @ outs"
  using assms
proof (induction n futs acc c w rule: collect.induct)
  case (1 n acc c w)
  then show ?case by simp
next
  case (2 n index e rest acc c w)
  then show ?case by simp
next
  case (3 n index result rest acc c w)
  from "3.prems" have "collect n rest (acc @ [result]) (c + 1)
       (click_echo Stdout (Progress (progress_status result) (c + 1) n (index + 1)) w) = (Inr rs, w')"
    by simp
  from "3.IH" [OF this] obtain outs where "map snd rest = map Inr outs" "rs = (acc @ [result]) @ outs"
    by blast
  then have "map snd ((index, Inr result) # rest) = map Inr (result # outs) \<and> rs = acc @ (result # outs)"
    by simp
  then show ?case by blast
qed

lemma collect_all_Inr:
  "map snd futs = map Inr outs \<Longrightarrow> fst (collect n futs acc c w) = Inr (acc @ outs)"
proof (induction n futs acc c w arbitrary: outs rule: collect.induct)
  case (1 n acc c w)
  then show ?case by simp
next
  case (2 n index e rest acc c w)
  then show ?case by auto
next
  case (3 n index result rest acc c w)
  from "3.prems" obtain outs' where o: "outs = result # outs'" "map snd rest = map Inr outs'"
    by (cases outs) auto
  from "3.IH" [OF o(2)] o(1) show ?case by simp
qed


lemma sort_key_indexed:
  fixes f :: "nat \<Rightarrow> outcome"
  assumes s: "sort sched = [0..<n]" and ix: "\<And>i. i \<in> set sched \<Longrightarrow> get_index (f i) = i"
  shows "sort_key get_index (map f sched) = map f [0..<n]"
proof -
  let ?rs = "sort_key get_index (map f sched)"
  have m: "map get_index (map f sched) = sched"
    using ix by (simp add: map_idI)
  have "mset (map get_index ?rs) = mset (map get_index (map f sched))"
    by (simp only: mset_map mset_sort)
  moreover have "sorted (map get_index ?rs)" by (rule sorted_sort_key)
  ultimately have "sort (map get_index (map f sched)) = map get_index ?rs"
    by (rule properties_for_sort)
  with m s have keys: "map get_index ?rs = [0..<n]" by simp
  then have len: "length ?rs = n" by (metis length_map length_upt diff_zero)
  have nth: "?rs ! i = f i" if "i < n" for i
  proof -
    from that len have "?rs ! i \<in> set ?rs" by (metis nth_mem)
    then have "?rs ! i \<in> f ` set sched" by (simp only: set_sort set_map)
    then obtain j where j: "j \<in> set sched" "?rs ! i = f j" by blast
    have "get_index (?rs ! i) = i"
      using keys that len by (metis nth_map nth_upt add_0)
    with j ix [of j] show ?thesis by simp
  qed
  show ?thesis
  proof (rule nth_equalityI)
    show "length ?rs = length (map f [0..<n])" using len by simp
  next
    fix i assume "i < length ?rs"
    then have "i < n" using len by simp
    then show "?rs ! i = map f [0..<n] ! i" using nth by simp
  qed
qed

lemma process_single_prompt_index:
  assumes "process_single_prompt ev cfg prompt index max_tokens temperature user_id output_path w = (Inr r, w')"
  shows "get_index r = index"
  using assms
  by (auto simp: process_single_prompt_def Let_def split: prod.splits sum.splits if_splits option.splits)

lemma except_clauses_Inr:
  "\<exists>r. except_clauses e = Inr r \<and> \<not> success r \<and> error r \<noteq> None \<and> status_code r \<noteq> None"
  by (cases e) (simp_all add: failure_result_def)

subsection \<open>What a returning batch run returns\<close>

lemma process_prompts_concurrent_Inr:
  assumes sched: "valid_schedule ev prompts"
    and ret: "process_prompts_concurrent ev cfg prompts mt t u max_workers delay out w = (Inr rs, w')"
  shows "0 < max_workers \<and> length rs = length prompts \<and>
         (\<forall>i<length prompts.
            fst (process_single_prompt ev cfg (prompts ! i) i mt t u out w0) = Inr (rs ! i))"
proof -
  let ?job = "\<lambda>i. process_single_prompt ev cfg (prompts ! i) i mt t u out"
  let ?w0 = "click_echo Stdout (Delay_between delay) (click_echo Stdout (Starting max_workers) w)"
  from ret have pos: "0 < max_workers"
    by (auto simp: process_prompts_concurrent_def Let_def split: if_splits)
  obtain futs w1 where rw: "run_workers ?job (schedule ev) ?w0 = (futs, w1)"
    by (cases "run_workers ?job (schedule ev) ?w0")
  have "fst (run_workers ?job (schedule ev) ?w0) = map (\<lambda>i. (i, fst (?job i w0))) (schedule ev)"
    by (rule run_workers_fst) (rule process_single_prompt_fst)
  with rw have futs: "futs = map (\<lambda>i. (i, fst (?job i w0))) (schedule ev)"
    by simp
  obtain c w2 where col: "collect (length prompts) futs [] 0 w1 = (c, w2)"
    by (cases "collect (length prompts) futs [] 0 w1")
  from ret pos rw col obtain res where c: "c = Inr res" and rs: "rs = sort_key get_index res"
    by (auto simp: process_prompts_concurrent_def Let_def split: sum.splits)
  from collect_Inr [of "length prompts" futs "[]" 0 w1 res w2] col c
  have snd_futs: "map snd futs = map Inr res" by auto
  with futs have all_inr: "map (\<lambda>i. fst (?job i w0)) (schedule ev) = map Inr res"
    by (simp add: comp_def)
  define f where "f = (\<lambda>i. projr (fst (?job i w0)))"
  have set_sched: "set (schedule ev) = {0..<length prompts}"
  proof -
    have "set (schedule ev) = set (sort (schedule ev))" by simp
    also have "\<dots> = set [0..<length prompts]" using sched by (simp only: valid_schedule_def)
    finally show ?thesis by simp
  qed
  have isr: "fst (?job i w0) = Inr (f i)" if "i \<in> set (schedule ev)" for i
  proof -
    from that have "fst (?job i w0) \<in> set (map (\<lambda>i. fst (?job i w0)) (schedule ev))"
      by (simp only: set_map) (rule imageI)
    then have "fst (?job i w0) \<in> set (map Inr res)" by (simp only: all_inr)
    then obtain r where "fst (?job i w0) = Inr r" by (auto simp only: set_map)
    then show ?thesis by (simp add: f_def)
  qed
  have res: "res = map f (schedule ev)"
  proof -
    have "map Inr res = map (\<lambda>i. fst (?job i w0)) (schedule ev)"
      by (rule all_inr [symmetric])
    also have "\<dots> = map (\<lambda>i. Inr (f i)) (schedule ev)"
      by (rule map_cong [OF refl]) (rule isr)
    also have "\<dots> = map Inr (map f (schedule ev))"
      by (simp only: map_map comp_def)
    finally show ?thesis by (simp only: inj_map_eq_map [OF inj_Inr])
  qed
  have ix: "get_index (f i) = i" if "i \<in> set (schedule ev)" for i
  proof -
    obtain a w3 where j: "?job i w0 = (a, w3)" by (cases "?job i w0")
    with isr [OF that] have "?job i w0 = (Inr (f i), w3)" by simp
    then show ?thesis by (rule process_single_prompt_index)
  qed
  have srt: "sort (schedule ev) = [0..<length prompts]"
    using sched by (simp only: valid_schedule_def)
  have eq: "rs = map f [0..<length prompts]"
    unfolding rs res by (rule sort_key_indexed [OF srt ix])
  have len: "length rs = length prompts" by (simp add: eq)
  have nth: "fst (?job i w0) = Inr (rs ! i)" if "i < length prompts" for i
  proof -
    from that set_sched have "i \<in> set (schedule ev)" by simp
    then have "fst (?job i w0) = Inr (f i)" by (rule isr)
    moreover have "rs ! i = f i" using that by (simp add: eq)
    ultimately show ?thesis by simp
  qed
  from pos len nth show ?thesis by blast
qed

lemma files_click_echo: "files (click_echo s m w) = files w"
  by (simp add: click_echo_def)

lemma posts_click_echo: "posts (click_echo s m w) = posts w"
  by (simp add: click_echo_def)

lemma files_final_echoes: "files (final_echoes s f out w) = files w"
  by (simp add: final_echoes_def Let_def files_click_echo)

lemma posts_final_echoes: "posts (final_echoes s f out w) = posts w"
  by (simp add: final_echoes_def Let_def posts_click_echo)

lemma process_prompts_concurrent_returns:
  assumes sched: "valid_schedule ev prompts"
    and pos: "0 < max_workers"
    and workers: "\<And>i. i < length prompts \<Longrightarrow>
        \<exists>r. fst (process_single_prompt ev cfg (prompts ! i) i mt t u out w0) = Inr r"
  shows "\<exists>rs. fst (process_prompts_concurrent ev cfg prompts mt t u max_workers delay out w) = Inr rs"
proof -
  let ?job = "\<lambda>i. process_single_prompt ev cfg (prompts ! i) i mt t u out"
  let ?w0 = "click_echo Stdout (Delay_between delay) (click_echo Stdout (Starting max_workers) w)"
  obtain futs w1 where rw: "run_workers ?job (schedule ev) ?w0 = (futs, w1)"
    by (cases "run_workers ?job (schedule ev) ?w0")
  have "fst (run_workers ?job (schedule ev) ?w0) = map (\<lambda>i. (i, fst (?job i w0))) (schedule ev)"
    by (rule run_workers_fst) (rule process_single_prompt_fst)
  with rw have futs: "futs = map (\<lambda>i. (i, fst (?job i w0))) (schedule ev)"
    by simp
  have set_sched: "set (schedule ev) = {0..<length prompts}"
  proof -
    have "set (schedule ev) = set (sort (schedule ev))" by simp
    also have "\<dots> = set [0..<length prompts]" using sched by (simp only: valid_schedule_def)
    finally show ?thesis by simp
  qed
  define f where "f = (\<lambda>i. projr (fst (?job i w0)))"
  have isr: "fst (?job i w0) = Inr (f i)" if "i \<in> set (schedule ev)" for i
  proof -
    from that set_sched have "i < length prompts" by simp
    from workers [OF this] obtain r where "fst (?job i w0) = Inr r" by blast
    then show ?thesis by (simp add: f_def)
  qed
  have "map snd futs = map (\<lambda>i. fst (?job i w0)) (schedule ev)"
    by (simp add: futs comp_def)
  also have "\<dots> = map (\<lambda>i. Inr (f i)) (schedule ev)"
    by (rule map_cong [OF refl]) (rule isr)
  also have "\<dots> = map Inr (map f (schedule ev))"
    by (simp only: map_map comp_def)
  finally have "fst (collect (length prompts) futs [] 0 w1) = Inr ([] @ map f (schedule ev))"
    by (rule collect_all_Inr)
  then obtain w2 where "collect (length prompts) futs [] 0 w1 = (Inr (map f (schedule ev)), w2)"
    by (cases "collect (length prompts) futs [] 0 w1") simp
  with pos rw show ?thesis
    by (simp add: process_prompts_concurrent_def Let_def)
qed

lemma process_returns:
  assumes load: "load_prompts ev input = Inr prompts" and ne: "prompts \<noteq> []"
    and ret: "process ev cfg input output mt t u mw d w = (Inr (), w')"
  shows "\<exists>rs w3. process_prompts_concurrent ev cfg prompts mt t u mw d output
            (click_echo Stdout (Output_directory output)
               (click_echo Stdout (Loaded (length prompts) input) w)) = (Inr rs, w3)
         \<and> files w' = (files w3)((output, ''batch_summary.json'') \<mapsto>
                          Json_summary (make_summary input output prompts rs))
         \<and> posts w' = posts w3"
proof -
  let ?w2 = "click_echo Stdout (Output_directory output)
               (click_echo Stdout (Loaded (length prompts) input) w)"
  obtain c w3 where p: "process_prompts_concurrent ev cfg prompts mt t u mw d output ?w2 = (c, w3)"
    by (cases "process_prompts_concurrent ev cfg prompts mt t u mw d output ?w2")
  from ret load ne p obtain rs where c: "c = Inr rs"
    by (cases c) (auto simp: process_def Let_def split: option.splits prod.splits)
  from ret load ne p c have
    "w' = final_echoes (make_summary input output prompts rs) (output, ''batch_summary.json'') output
            (w3\<lparr>files := (files w3)((output, ''batch_summary.json'') \<mapsto>
                   Json_summary (make_summary input output prompts rs))\<rparr>)"
    by (auto simp: process_def Let_def split: option.splits prod.splits)
  then have "files w' = (files w3)((output, ''batch_summary.json'') \<mapsto>
                          Json_summary (make_summary input output prompts rs))"
    and "posts w' = posts w3"
    by (simp_all add: files_final_echoes posts_final_echoes)
  with p c show ?thesis by blast
qed

lemma process_summary:
  assumes load: "load_prompts ev input = Inr prompts" and ne: "prompts \<noteq> []"
    and sched: "valid_schedule ev prompts"
    and ret: "process ev cfg input output mt t u mw d w = (Inr (), w')"
  shows "\<exists>rs. files w' (output, ''batch_summary.json'') =
                 Some (Json_summary (make_summary input output prompts rs))
         \<and> length rs = length prompts
         \<and> (\<forall>i<length prompts.
              fst (process_single_prompt ev cfg (prompts ! i) i mt t u output w0) = Inr (rs ! i))"
proof -
  from process_returns [OF load ne ret] obtain rs w3 where
    p: "process_prompts_concurrent ev cfg prompts mt t u mw d output
            (click_echo Stdout (Output_directory output)
               (click_echo Stdout (Loaded (length prompts) input) w)) = (Inr rs, w3)"
    and f: "files w' = (files w3)((output, ''batch_summary.json'') \<mapsto>
                          Json_summary (make_summary input output prompts rs))"
    by blast
  from process_prompts_concurrent_Inr [OF sched p, of w0]
  have "length rs = length prompts"
    and "\<forall>i<length prompts.
           fst (process_single_prompt ev cfg (prompts ! i) i mt t u output w0) = Inr (rs ! i)"
    by simp_all
  moreover from f have "files w' (output, ''batch_summary.json'') =
                 Some (Json_summary (make_summary input output prompts rs))" by simp
  ultimately show ?thesis by blast
qed

lemma content_filtered_plus_successful:
  "length (filter get_content_filtered rs) + length (filter get_success rs) \<le> length rs"
proof (induction rs)
  case Nil
  show ?case by simp
next
  case (Cons r rs)
  then show ?case by (cases r) auto
qed

lemma process_single_prompt_prompt:
  assumes "process_single_prompt ev cfg prompt index max_tokens temperature user_id output_path w = (Inr r, w')"
  shows "get_prompt r = truncate_prompt prompt"
  using assms
  by (auto simp: process_single_prompt_def Let_def split: prod.splits sum.splits if_splits option.splits)

lemma generate_text_env:
  "fst (generate_text (ev\<lparr>schedule := s, elapsed := el\<rparr>) cfg prompt kw w) =
   fst (generate_text ev cfg prompt kw w)"
  by (simp add: generate_text_def Let_def split: sum.splits)

lemma write_result_env:
  "fst (write_result (ev\<lparr>schedule := s, elapsed := el\<rparr>) f result w) = fst (write_result ev f result w)"
  by (simp add: write_result_def Let_def split: option.splits sum.splits json.splits prod.splits)

lemma all_workers_returnD:
  assumes "all_workers_return ev cfg prompts mt t u out" and "i < length prompts"
  shows "\<exists>r. fst (process_single_prompt ev cfg (prompts ! i) i mt t u out w0) = Inr r"
proof -
  let ?w = "\<lparr>files = Map.empty, posts = [], echoes = []\<rparr>"
  from assms have "case fst (process_single_prompt ev cfg (prompts ! i) i mt t u out ?w) of
                     Inl e \<Rightarrow> False | Inr r \<Rightarrow> True"
    by (simp add: all_workers_return_def list_all_iff)
  then obtain r where "fst (process_single_prompt ev cfg (prompts ! i) i mt t u out ?w) = Inr r"
    by (cases "fst (process_single_prompt ev cfg (prompts ! i) i mt t u out ?w)") simp_all
  then show ?thesis
    using process_single_prompt_fst [of ev cfg "prompts ! i" i mt t u out w0 ?w] by simp
qed

lemma variant_of_ContentFiltered: "(variant_of r = ContentFiltered) = get_content_filtered r"
  by (cases r) (simp_all add: variant_of_def)

lemma variant_of_Success: "(variant_of r = Success) = get_success r"
  by (cases r) (simp_all add: variant_of_def)

lemma process_single_prompt_env:
  "map_sum id strip_time
     (fst (process_single_prompt (ev\<lparr>schedule := s, elapsed := el\<rparr>) cfg p i mt t u out w)) =
   map_sum id strip_time (fst (process_single_prompt ev cfg p i mt t u out w))"
proof -
  let ?ev2 = "ev\<lparr>schedule := s, elapsed := el\<rparr>"
  obtain g w1 where g: "generate_text ev cfg p (build_params mt t u) w = (g, w1)"
    by (cases "generate_text ev cfg p (build_params mt t u) w")
  have g2: "generate_text ?ev2 cfg p (build_params mt t u) w = (g, w1)"
    using g generate_text_env [where ev = ev and s = s and el = el and cfg = cfg and prompt = p
        and kw = "build_params mt t u" and w = w]
      generate_text_snd [of ev cfg p "build_params mt t u" w]
      generate_text_snd [of ?ev2 cfg p "build_params mt t u" w]
    by (simp add: prod_eq_iff)
  show ?thesis
  proof (cases g)
    case (Inl e)
    with g g2 show ?thesis by (simp add: process_single_prompt_def)
  next
    case (Inr result)
    obtain a w2 where a: "write_result ev (out, result_filename i) result w1 = (a, w2)"
      by (cases "write_result ev (out, result_filename i) result w1")
    obtain a2 w22 where a2: "write_result ?ev2 (out, result_filename i) result w1 = (a2, w22)"
      by (cases "write_result ?ev2 (out, result_filename i) result w1")
    have aa: "a2 = a"
      using write_result_env [where ev = ev and s = s and el = el
          and f = "(out, result_filename i)" and result = result and w = w1] a a2 by simp
    from Inr g g2 a a2 aa show ?thesis
      by (simp add: process_single_prompt_def Let_def split: sum.splits option.splits)
  qed
qed

lemma generate_text_pair:
  "fst (generate_text ev cfg prompt kw w) = Inr result \<Longrightarrow>
   generate_text ev cfg prompt kw w = (Inr result, w\<lparr>posts := posts w @ [build_payload cfg prompt kw]\<rparr>)"
  using generate_text_snd [of ev cfg prompt kw w] by (simp add: prod_eq_iff)

lemma is_content_filtered_spec:
  "is_content_filtered result = Inr cf \<Longrightarrow> \<not> success result \<Longrightarrow>
   (if cf then ContentFiltered else Failure) = spec_classify ''Content policy violation'' result"
  by (auto simp: is_content_filtered_def spec_classify_def detail_reason_def
      split: if_splits option.splits json.splits sum.splits)

lemma is_content_filtered_returns:
  "status_code result \<noteq> Some 400 \<or> details result = None \<or> (\<exists>kvs. details result = Some (JObj kvs))
   \<Longrightarrow> \<exists>cf. is_content_filtered result = Inr cf"
  by (auto simp: is_content_filtered_def)






























section \<open>The transport client\<close>




section \<open>The batch command\<close>

text \<open>
  C5. When the input file holds no prompt, \<^verbatim>\<open>process\<close> returns normally; it prints the
  number of prompts loaded and, on the error stream, that no prompts were found. Nothing
  else changes: no request is sent and no file is written.
\<close>

theorem process_empty_input:
  assumes "load_prompts ev input = Inr []"
  shows "process ev cfg input output max_tokens temperature user_id max_workers delay w =
           (Inr (), w\<lparr>echoes := echoes w @ [(Stdout, Loaded 0 input), (Stderr, No_prompts_found)]\<rparr>)"
  using assms by (simp add: process_def click_echo_def)

theorem process_empty_input_witness:
  "load_prompts (sample_env ok_reply None [] []) ''in.txt'' = Inr [] \<and>
   process (sample_env ok_reply None [] []) Map.empty ''in.txt'' ''out'' None None None 3 1 empty_world =
     (Inr (), \<lparr>files = Map.empty, posts = [],
               echoes = [(Stdout, Loaded 0 ''in.txt''), (Stderr, No_prompts_found)]\<rparr>)"
proof -
  have h: "load_prompts (sample_env ok_reply None [] []) ''in.txt'' = Inr []"
    by (simp add: sample_env_def)
  show ?thesis
    using h process_empty_input [OF h, of Map.empty "''out''" None None None 3 1 empty_world]
    by (simp add: empty_world_def)
qed

text \<open>
  C1. Take a non-empty list of prompts and a schedule in which every submitted future
  completes once. When the pool can be made and every job returns an outcome,
  \<^verbatim>\<open>process_prompts_concurrent\<close> returns a list with one outcome per prompt, and the
  outcome at position \<open>i\<close> carries index \<open>i\<close>, whatever the order of completion. When the
  command returns normally, the summary file holds a list with the same two properties.
\<close>

theorem outcomes_in_input_order:
  assumes sched: "valid_schedule ev prompts" and ne: "prompts \<noteq> []"
  shows "(0 < max_workers \<and> all_workers_return ev cfg prompts mt t u out \<longrightarrow>
           (\<exists>rs w'. process_prompts_concurrent ev cfg prompts mt t u max_workers delay out w = (Inr rs, w')
                \<and> length rs = length prompts
                \<and> (\<forall>i<length prompts. get_index (rs ! i) = i)))
       \<and> (load_prompts ev input = Inr prompts
            \<and> fst (process ev cfg input out mt t u max_workers delay w) = Inr () \<longrightarrow>
           (\<exists>s. files (snd (process ev cfg input out mt t u max_workers delay w))
                   (out, ''batch_summary.json'') = Some (Json_summary s)
                \<and> length (s_results s) = length prompts
                \<and> (\<forall>i<length prompts. get_index (s_results s ! i) = i)))"
proof (intro conjI impI)
  assume a: "0 < max_workers \<and> all_workers_return ev cfg prompts mt t u out"
  then have "\<exists>rs. fst (process_prompts_concurrent ev cfg prompts mt t u max_workers delay out w) = Inr rs"
    by (intro process_prompts_concurrent_returns [OF sched, of _ _ _ _ _ _ w] all_workers_returnD) simp_all
  then obtain rs w' where
    p: "process_prompts_concurrent ev cfg prompts mt t u max_workers delay out w = (Inr rs, w')"
    by (cases "process_prompts_concurrent ev cfg prompts mt t u max_workers delay out w") auto
  from process_prompts_concurrent_Inr [OF sched p, of w]
  have len: "length rs = length prompts"
    and nth: "\<And>i. i < length prompts \<Longrightarrow>
           fst (process_single_prompt ev cfg (prompts ! i) i mt t u out w) = Inr (rs ! i)"
    by simp_all
  have "get_index (rs ! i) = i" if "i < length prompts" for i
  proof -
    obtain a w1 where "process_single_prompt ev cfg (prompts ! i) i mt t u out w = (a, w1)"
      by (cases "process_single_prompt ev cfg (prompts ! i) i mt t u out w")
    with nth [OF that] have "process_single_prompt ev cfg (prompts ! i) i mt t u out w = (Inr (rs ! i), w1)"
      by simp
    then show ?thesis by (rule process_single_prompt_index)
  qed
  with p len show "\<exists>rs w'. process_prompts_concurrent ev cfg prompts mt t u max_workers delay out w = (Inr rs, w')
                \<and> length rs = length prompts
                \<and> (\<forall>i<length prompts. get_index (rs ! i) = i)"
    by blast
next
  assume a: "load_prompts ev input = Inr prompts
            \<and> fst (process ev cfg input out mt t u max_workers delay w) = Inr ()"
  let ?w' = "snd (process ev cfg input out mt t u max_workers delay w)"
  from a have ret: "process ev cfg input out mt t u max_workers delay w = (Inr (), ?w')"
    by (simp add: prod_eq_iff)
  from a have load: "load_prompts ev input = Inr prompts" by simp
  from process_summary [OF load ne sched ret, of w] obtain rs where
    f: "files ?w' (out, ''batch_summary.json'') = Some (Json_summary (make_summary input out prompts rs))"
    and len: "length rs = length prompts"
    and nth: "\<And>i. i < length prompts \<Longrightarrow>
           fst (process_single_prompt ev cfg (prompts ! i) i mt t u out w) = Inr (rs ! i)"
    by blast
  have ix: "get_index (rs ! i) = i" if "i < length prompts" for i
  proof -
    obtain a w1 where "process_single_prompt ev cfg (prompts ! i) i mt t u out w = (a, w1)"
      by (cases "process_single_prompt ev cfg (prompts ! i) i mt t u out w")
    with nth [OF that] have "process_single_prompt ev cfg (prompts ! i) i mt t u out w = (Inr (rs ! i), w1)"
      by simp
    then show ?thesis by (rule process_single_prompt_index)
  qed
  have "s_results (make_summary input out prompts rs) = rs"
    by (simp add: make_summary_def Let_def)
  with f len ix show "\<exists>s. files ?w' (out, ''batch_summary.json'') = Some (Json_summary s)
                \<and> length (s_results s) = length prompts
                \<and> (\<forall>i<length prompts. get_index (s_results s ! i) = i)"
    by auto
qed

theorem outcomes_in_input_order_witness:
  "valid_schedule (sample_env mixed_reply None [''hello'', ''blocked'', ''slow''] [2, 0, 1])
     [''hello'', ''blocked'', ''slow'']
   \<and> [''hello'', ''blocked'', ''slow''] \<noteq> []
   \<and> (0::int) < 3
   \<and> all_workers_return (sample_env mixed_reply None [''hello'', ''blocked'', ''slow''] [2, 0, 1])
        Map.empty [''hello'', ''blocked'', ''slow''] None None None ''out''
   \<and> (\<exists>rs w'. process_prompts_concurrent
                 (sample_env mixed_reply None [''hello'', ''blocked'', ''slow''] [2, 0, 1])
                 Map.empty [''hello'', ''blocked'', ''slow''] None None None 3 1 ''out'' empty_world
               = (Inr rs, w')
             \<and> length rs = length [''hello'', ''blocked'', ''slow'']
             \<and> (\<forall>i<length [''hello'', ''blocked'', ''slow'']. get_index (rs ! i) = i))
   \<and> load_prompts (sample_env mixed_reply None [''hello'', ''blocked'', ''slow''] [2, 0, 1]) ''in.txt''
       = Inr [''hello'', ''blocked'', ''slow'']
   \<and> fst (process (sample_env mixed_reply None [''hello'', ''blocked'', ''slow''] [2, 0, 1])
            Map.empty ''in.txt'' ''out'' None None None 3 1 empty_world) = Inr ()
   \<and> (\<exists>s. files (snd (process (sample_env mixed_reply None [''hello'', ''blocked'', ''slow''] [2, 0, 1])
                        Map.empty ''in.txt'' ''out'' None None None 3 1 empty_world))
             (''out'', ''batch_summary.json'') = Some (Json_summary s)
          \<and> length (s_results s) = length [''hello'', ''blocked'', ''slow'']
          \<and> (\<forall>i<length [''hello'', ''blocked'', ''slow'']. get_index (s_results s ! i) = i))"
proof -
  let ?ps = "[''hello'', ''blocked'', ''slow'']"
  let ?ev = "sample_env mixed_reply None ?ps [2, 0, 1]"
  have h0: "(0::int) < 3" by simp
  have h1: "valid_schedule ?ev ?ps" by code_simp
  have h2: "?ps \<noteq> []" by simp
  have h3: "all_workers_return ?ev Map.empty ?ps None None None ''out''" by code_simp
  have h4: "load_prompts ?ev ''in.txt'' = Inr ?ps" by (simp add: sample_env_def)
  have h5: "fst (process ?ev Map.empty ''in.txt'' ''out'' None None None 3 1 empty_world) = Inr ()"
    by code_simp
  note T = outcomes_in_input_order [OF h1 h2, of 3 Map.empty None None None "''out''" 1 empty_world
      "''in.txt''"]
  note A = T [THEN conjunct1, THEN mp, OF conjI [OF h0 h3]]
  note B = T [THEN conjunct2, THEN mp, OF conjI [OF h4 h5]]
  show ?thesis by (intro conjI h0 h1 h2 h3 h4 h5 A B)
qed

text \<open>
  C3. When the command returns normally on a non-empty list of prompts, the summary it
  wrote has a total equal to the number of prompts, its successful and failed counts add
  up to the total, and its content-filtered count is at most its failed count. The
  successful count is the number of Success outcomes in the list and the content-filtered
  count the number of ContentFiltered ones.
\<close>

theorem summary_counts_reconcile:
  assumes load: "load_prompts ev input = Inr prompts" and ne: "prompts \<noteq> []"
    and sched: "valid_schedule ev prompts"
    and ret: "process ev cfg input output mt t u mw d w = (Inr (), w')"
  shows "\<exists>s. files w' (output, ''batch_summary.json'') = Some (Json_summary s)
           \<and> s_total_prompts s = int (length prompts)
           \<and> s_successful s + s_failed s = s_total_prompts s
           \<and> s_content_filtered s \<le> s_failed s
           \<and> s_successful s = int (length (filter (\<lambda>r. variant_of r = Success) (s_results s)))
           \<and> s_content_filtered s =
               int (length (filter (\<lambda>r. variant_of r = ContentFiltered) (s_results s)))"
proof -
  from process_summary [OF load ne sched ret, of w] obtain rs where
    f: "files w' (output, ''batch_summary.json'') =
          Some (Json_summary (make_summary input output prompts rs))"
    and len: "length rs = length prompts"
    by blast
  let ?s = "make_summary input output prompts rs"
  have tot: "s_total_prompts ?s = int (length prompts)"
    by (simp add: make_summary_def Let_def)
  have sum: "s_successful ?s + s_failed ?s = s_total_prompts ?s"
    using len by (simp add: make_summary_def Let_def)
  have "length (filter get_content_filtered rs) + length (filter get_success rs) \<le> length rs"
    by (rule content_filtered_plus_successful)
  then have cf: "s_content_filtered ?s \<le> s_failed ?s"
    by (simp add: make_summary_def Let_def)
  have su: "s_successful ?s = int (length (filter (\<lambda>r. variant_of r = Success) (s_results ?s)))"
    by (simp add: make_summary_def Let_def variant_of_Success)
  have c: "s_content_filtered ?s =
             int (length (filter (\<lambda>r. variant_of r = ContentFiltered) (s_results ?s)))"
    by (simp add: make_summary_def Let_def variant_of_ContentFiltered)
  from f tot sum cf su c show ?thesis by blast
qed

theorem summary_counts_reconcile_witness:
  "load_prompts (sample_env mixed_reply None [''hello'', ''blocked'', ''slow''] [2, 0, 1]) ''in.txt''
       = Inr [''hello'', ''blocked'', ''slow'']
   \<and> [''hello'', ''blocked'', ''slow''] \<noteq> []
   \<and> valid_schedule (sample_env mixed_reply None [''hello'', ''blocked'', ''slow''] [2, 0, 1])
        [''hello'', ''blocked'', ''slow'']
   \<and> fst (process (sample_env mixed_reply None [''hello'', ''blocked'', ''slow''] [2, 0, 1])
            Map.empty ''in.txt'' ''out'' None None None 3 1 empty_world) = Inr ()
   \<and> (\<exists>s. files (snd (process (sample_env mixed_reply None [''hello'', ''blocked'', ''slow''] [2, 0, 1])
                        Map.empty ''in.txt'' ''out'' None None None 3 1 empty_world))
             (''out'', ''batch_summary.json'') = Some (Json_summary s)
           \<and> s_total_prompts s = int (length [''hello'', ''blocked'', ''slow''])
           \<and> s_successful s + s_failed s = s_total_prompts s
           \<and> s_content_filtered s \<le> s_failed s
           \<and> s_successful s = int (length (filter (\<lambda>r. variant_of r = Success) (s_results s)))
           \<and> s_content_filtered s =
               int (length (filter (\<lambda>r. variant_of r = ContentFiltered) (s_results s))))"
proof -
  let ?ps = "[''hello'', ''blocked'', ''slow'']"
  let ?ev = "sample_env mixed_reply None ?ps [2, 0, 1]"
  let ?run = "process ?ev Map.empty ''in.txt'' ''out'' None None None 3 1 empty_world"
  have h1: "load_prompts ?ev ''in.txt'' = Inr ?ps" by (simp add: sample_env_def)
  have h2: "?ps \<noteq> []" by simp
  have h3: "valid_schedule ?ev ?ps" by code_simp
  have h4: "fst ?run = Inr ()" by code_simp
  then have ret: "?run = (Inr (), snd ?run)" by (simp add: prod_eq_iff)
  note T = summary_counts_reconcile [OF h1 h2 h3 ret]
  show ?thesis by (intro conjI h1 h2 h3 h4 T)
qed

text \<open>
  C10, as the claim states it, fails: a prompt of 103 characters that ends in three dots
  is longer than 100 characters, and the text stored for it is the whole prompt.
\<close>

theorem long_prompt_stored_whole:
  "100 < length (replicate 100 (CHR ''a'') @ ''...'')
   \<and> map_sum id get_prompt
       (fst (process_single_prompt (sample_env ok_reply None [] []) Map.empty
               (replicate 100 (CHR ''a'') @ ''...'') 0 None None None ''out'' empty_world))
     = Inr (replicate 100 (CHR ''a'') @ ''...'')"
  by code_simp

text \<open>
  C10, amended. The prompt stored in an outcome is the prompt itself when it has at most
  100 characters, and its first 100 characters followed by three dots when it is longer.
  The stored text of a longer prompt has 103 characters, and it is the whole prompt only
  if the prompt's characters after the first 100 are exactly three dots. The outcomes in
  the summary written by a command that returns normally carry the same texts.
\<close>

theorem stored_prompt_truncated:
  assumes sched: "valid_schedule ev prompts" and ne: "prompts \<noteq> []"
  shows "(\<forall>prompt index r w'.
            process_single_prompt ev cfg prompt index mt t u out w = (Inr r, w') \<longrightarrow>
              get_prompt r = (if length prompt \<le> 100 then prompt else take 100 prompt @ ''...'')
              \<and> (100 < length prompt \<longrightarrow>
                   length (get_prompt r) = 103
                   \<and> ((get_prompt r = prompt) = (drop 100 prompt = ''...''))))
       \<and> (load_prompts ev input = Inr prompts
            \<and> fst (process ev cfg input out mt t u mw d w) = Inr () \<longrightarrow>
           (\<exists>s. files (snd (process ev cfg input out mt t u mw d w))
                   (out, ''batch_summary.json'') = Some (Json_summary s)
                \<and> length (s_results s) = length prompts
                \<and> (\<forall>i<length prompts.
                      get_prompt (s_results s ! i) =
                        (if length (prompts ! i) \<le> 100 then prompts ! i
                         else take 100 (prompts ! i) @ ''...''))))"
proof (intro conjI impI allI)
  fix prompt index r w'
  assume ret: "process_single_prompt ev cfg prompt index mt t u out w = (Inr r, w')"
  have g: "get_prompt r = truncate_prompt prompt"
    using ret by (rule process_single_prompt_prompt)
  then show "get_prompt r = (if length prompt \<le> 100 then prompt else take 100 prompt @ ''...'')"
    by (simp add: truncate_prompt_def)
  {
    assume long: "100 < length prompt"
    with g have gp: "get_prompt r = take 100 prompt @ ''...''"
      by (simp add: truncate_prompt_def)
    from long show "length (get_prompt r) = 103" by (simp add: gp)
    have "(take 100 prompt @ ''...'' = take 100 prompt @ drop 100 prompt) = (''...'' = drop 100 prompt)"
      by (rule same_append_eq)
    then show "(get_prompt r = prompt) = (drop 100 prompt = ''...'')"
      by (auto simp: gp)
  }
next
  assume a: "load_prompts ev input = Inr prompts
            \<and> fst (process ev cfg input out mt t u mw d w) = Inr ()"
  let ?w' = "snd (process ev cfg input out mt t u mw d w)"
  from a have ret: "process ev cfg input out mt t u mw d w = (Inr (), ?w')"
    by (simp add: prod_eq_iff)
  from a have load: "load_prompts ev input = Inr prompts" by simp
  from process_summary [OF load ne sched ret, of w] obtain rs where
    f: "files ?w' (out, ''batch_summary.json'') = Some (Json_summary (make_summary input out prompts rs))"
    and len: "length rs = length prompts"
    and nth: "\<And>i. i < length prompts \<Longrightarrow>
           fst (process_single_prompt ev cfg (prompts ! i) i mt t u out w) = Inr (rs ! i)"
    by blast
  have tr: "get_prompt (rs ! i) =
              (if length (prompts ! i) \<le> 100 then prompts ! i else take 100 (prompts ! i) @ ''...'')"
    if "i < length prompts" for i
  proof -
    obtain a w1 where "process_single_prompt ev cfg (prompts ! i) i mt t u out w = (a, w1)"
      by (cases "process_single_prompt ev cfg (prompts ! i) i mt t u out w")
    with nth [OF that] have "process_single_prompt ev cfg (prompts ! i) i mt t u out w = (Inr (rs ! i), w1)"
      by simp
    then have "get_prompt (rs ! i) = truncate_prompt (prompts ! i)"
      by (rule process_single_prompt_prompt)
    then show ?thesis by (simp add: truncate_prompt_def)
  qed
  have "s_results (make_summary input out prompts rs) = rs"
    by (simp add: make_summary_def Let_def)
  with f len tr show "\<exists>s. files ?w' (out, ''batch_summary.json'') = Some (Json_summary s)
                \<and> length (s_results s) = length prompts
                \<and> (\<forall>i<length prompts.
                      get_prompt (s_results s ! i) =
                        (if length (prompts ! i) \<le> 100 then prompts ! i
                         else take 100 (prompts ! i) @ ''...''))"
    by auto
qed

theorem stored_prompt_truncated_witness:
  "valid_schedule (sample_env ok_reply None [replicate 101 (CHR ''a''), ''short''] [1, 0]) [replicate 101 (CHR ''a''), ''short'']
   \<and> [replicate 101 (CHR ''a''), ''short''] \<noteq> []
   \<and> fst (process_single_prompt (sample_env ok_reply None [replicate 101 (CHR ''a''), ''short''] [1, 0]) Map.empty (replicate 101 (CHR ''a'')) 0 None None None ''out'' empty_world)
       = Inr (Success_outcome 0 (replicate 100 (CHR ''a'') @ ''...'') (''out'', ''result_0001.txt'') 1 (JObj []))
   \<and> 100 < length (replicate 101 (CHR ''a''))
   \<and> get_prompt (Success_outcome 0 (replicate 100 (CHR ''a'') @ ''...'') (''out'', ''result_0001.txt'') 1 (JObj []))
       = (if length (replicate 101 (CHR ''a'')) \<le> 100 then replicate 101 (CHR ''a'')
          else take 100 (replicate 101 (CHR ''a'')) @ ''...'')
   \<and> length (get_prompt (Success_outcome 0 (replicate 100 (CHR ''a'') @ ''...'') (''out'', ''result_0001.txt'') 1 (JObj []))) = 103
   \<and> ((get_prompt (Success_outcome 0 (replicate 100 (CHR ''a'') @ ''...'') (''out'', ''result_0001.txt'') 1 (JObj [])) = replicate 101 (CHR ''a''))
         = (drop 100 (replicate 101 (CHR ''a'')) = ''...''))
   \<and> load_prompts (sample_env ok_reply None [replicate 101 (CHR ''a''), ''short''] [1, 0]) ''in.txt'' = Inr [replicate 101 (CHR ''a''), ''short'']
   \<and> fst (process (sample_env ok_reply None [replicate 101 (CHR ''a''), ''short''] [1, 0]) Map.empty ''in.txt'' ''out'' None None None 3 1 empty_world) = Inr ()
   \<and> (\<exists>s. files (snd (process (sample_env ok_reply None [replicate 101 (CHR ''a''), ''short''] [1, 0]) Map.empty ''in.txt'' ''out'' None None None 3 1 empty_world))
                   (''out'', ''batch_summary.json'') = Some (Json_summary s)
                \<and> length (s_results s) = length [replicate 101 (CHR ''a''), ''short'']
                \<and> (\<forall>i<length [replicate 101 (CHR ''a''), ''short''].
                      get_prompt (s_results s ! i) =
                        (if length ([replicate 101 (CHR ''a''), ''short''] ! i) \<le> 100 then [replicate 101 (CHR ''a''), ''short''] ! i
                         else take 100 ([replicate 101 (CHR ''a''), ''short''] ! i) @ ''...'')))"
proof -
  let ?p = "replicate 101 (CHR ''a'')"
  let ?ps = "[?p, ''short'']"
  let ?ev = "sample_env ok_reply None ?ps [1, 0]"
  let ?x = "process_single_prompt ?ev Map.empty ?p 0 None None None ''out'' empty_world"
  let ?r = "Success_outcome 0 (replicate 100 (CHR ''a'') @ ''...'') (''out'', ''result_0001.txt'') 1 (JObj [])"
  let ?run = "process ?ev Map.empty ''in.txt'' ''out'' None None None 3 1 empty_world"
  have h1: "valid_schedule ?ev ?ps" by code_simp
  have h2: "?ps \<noteq> []" by simp
  have h3: "fst ?x = Inr ?r" by code_simp
  then have ret: "?x = (Inr ?r, snd ?x)" by (simp add: prod_eq_iff)
  have h4: "100 < length ?p" by simp
  have h5: "load_prompts ?ev ''in.txt'' = Inr ?ps" by (simp add: sample_env_def)
  have h6: "fst ?run = Inr ()" by code_simp
  note T = stored_prompt_truncated [OF h1 h2, of Map.empty None None None "''out''" empty_world
      "''in.txt''" 3 1]
  note A = T [THEN conjunct1, THEN spec, THEN spec, THEN spec, THEN spec, THEN mp, OF ret]
  note B = T [THEN conjunct2, THEN mp, OF conjI [OF h5 h6]]
  note L = A [THEN conjunct2, THEN mp, OF h4]
  show ?thesis
    by (intro conjI h1 h2 h3 h4 h5 h6 A [THEN conjunct1] L [THEN conjunct1] L [THEN conjunct2] B)
qed

text \<open>
  C9. Take any backend, any two orders of completion and any two sets of measured times.
  A run with one worker and no delay and a run with \<open>n > 1\<close> workers and any delay either
  both raise, or both return outcome lists that are equal once the elapsed times are
  erased.
\<close>

theorem concurrency_keeps_outcomes:
  assumes s1: "valid_schedule ev prompts"
    and s2: "valid_schedule (ev\<lparr>schedule := sched2, elapsed := el2\<rparr>) prompts"
    and n: "1 < n"
  shows "map_sum (\<lambda>e. ()) (map strip_time)
           (fst (process_prompts_concurrent ev cfg prompts mt t u 1 0 out w1))
       = map_sum (\<lambda>e. ()) (map strip_time)
           (fst (process_prompts_concurrent (ev\<lparr>schedule := sched2, elapsed := el2\<rparr>) cfg prompts
                   mt t u n d out w2))"
proof -
  let ?ev2 = "ev\<lparr>schedule := sched2, elapsed := el2\<rparr>"
  let ?W1 = "\<lambda>i. fst (process_single_prompt ev cfg (prompts ! i) i mt t u out w1)"
  let ?W2 = "\<lambda>i. fst (process_single_prompt ?ev2 cfg (prompts ! i) i mt t u out w1)"
  let ?P1 = "process_prompts_concurrent ev cfg prompts mt t u 1 0 out w1"
  let ?P2 = "process_prompts_concurrent ?ev2 cfg prompts mt t u n d out w2"
  have W: "map_sum id strip_time (?W2 i) = map_sum id strip_time (?W1 i)" for i
    by (rule process_single_prompt_env)
  from n have pos: "0 < n" by simp
  show ?thesis
  proof (cases "\<forall>i<length prompts. \<exists>r. ?W1 i = Inr r")
    case True
    have r1: "\<exists>r. ?W1 i = Inr r" if "i < length prompts" for i
      using True that by blast
    have r2: "\<exists>r. ?W2 i = Inr r" if "i < length prompts" for i
    proof -
      from r1 [OF that] obtain r where "?W1 i = Inr r" by blast
      with W [of i] have "map_sum id strip_time (?W2 i) = Inr (strip_time r)" by simp
      then show ?thesis by (cases "?W2 i") simp_all
    qed
    from process_prompts_concurrent_returns [OF s1 _ r1, of 1 0 w1]
    obtain rs1 where f1: "fst ?P1 = Inr rs1" by auto
    from process_prompts_concurrent_returns [OF s2 pos r2, of d w2]
    obtain rs2 where f2: "fst ?P2 = Inr rs2" by auto
    from f1 have p1: "?P1 = (Inr rs1, snd ?P1)" by (simp add: prod_eq_iff)
    from f2 have p2: "?P2 = (Inr rs2, snd ?P2)" by (simp add: prod_eq_iff)
    from process_prompts_concurrent_Inr [OF s1 p1, of w1]
    have l1: "length rs1 = length prompts"
      and n1: "\<And>i. i < length prompts \<Longrightarrow> ?W1 i = Inr (rs1 ! i)" by simp_all
    from process_prompts_concurrent_Inr [OF s2 p2, of w1]
    have l2: "length rs2 = length prompts"
      and n2: "\<And>i. i < length prompts \<Longrightarrow> ?W2 i = Inr (rs2 ! i)" by simp_all
    have "map strip_time rs1 = map strip_time rs2"
    proof (rule nth_equalityI)
      show "length (map strip_time rs1) = length (map strip_time rs2)" using l1 l2 by simp
    next
      fix i assume "i < length (map strip_time rs1)"
      then have i: "i < length prompts" using l1 by simp
      from W [of i] n1 [OF i] n2 [OF i] have "strip_time (rs2 ! i) = strip_time (rs1 ! i)" by simp
      with i l1 l2 show "map strip_time rs1 ! i = map strip_time rs2 ! i" by simp
    qed
    with f1 f2 show ?thesis by simp
  next
    case False
    then obtain i where i: "i < length prompts" and no1: "\<not> (\<exists>r. ?W1 i = Inr r)" by blast
    have no2: "\<not> (\<exists>r. ?W2 i = Inr r)"
    proof
      assume "\<exists>r. ?W2 i = Inr r"
      then obtain r where "?W2 i = Inr r" by blast
      with W [of i] have "map_sum id strip_time (?W1 i) = Inr (strip_time r)" by simp
      then have "\<exists>r. ?W1 i = Inr r" by (cases "?W1 i") simp_all
      with no1 show False by blast
    qed
    have e1: "\<exists>e. fst ?P1 = Inl e"
    proof (cases "fst ?P1")
      case (Inl e)
      then show ?thesis by blast
    next
      case (Inr rs)
      then have "?P1 = (Inr rs, snd ?P1)" by (simp add: prod_eq_iff)
      from process_prompts_concurrent_Inr [OF s1 this, of w1] i no1 show ?thesis by blast
    qed
    have e2: "\<exists>e. fst ?P2 = Inl e"
    proof (cases "fst ?P2")
      case (Inl e)
      then show ?thesis by blast
    next
      case (Inr rs)
      then have "?P2 = (Inr rs, snd ?P2)" by (simp add: prod_eq_iff)
      from process_prompts_concurrent_Inr [OF s2 this, of w1] i no2 show ?thesis by blast
    qed
    from e1 e2 show ?thesis by auto
  qed
qed

theorem concurrency_keeps_outcomes_witness:
  "valid_schedule (sample_env mixed_reply None [''hello'', ''blocked'', ''slow''] [0, 1, 2])
     [''hello'', ''blocked'', ''slow'']
   \<and> valid_schedule
        ((sample_env mixed_reply None [''hello'', ''blocked'', ''slow''] [0, 1, 2])
           \<lparr>schedule := [2, 0, 1], elapsed := (\<lambda>i. 5)\<rparr>)
        [''hello'', ''blocked'', ''slow'']
   \<and> (1::int) < 4
   \<and> map_sum (\<lambda>e. ()) (map strip_time)
        (fst (process_prompts_concurrent
                (sample_env mixed_reply None [''hello'', ''blocked'', ''slow''] [0, 1, 2])
                Map.empty [''hello'', ''blocked'', ''slow''] None None None 1 0 ''out'' empty_world))
     = map_sum (\<lambda>e. ()) (map strip_time)
        (fst (process_prompts_concurrent
                ((sample_env mixed_reply None [''hello'', ''blocked'', ''slow''] [0, 1, 2])
                   \<lparr>schedule := [2, 0, 1], elapsed := (\<lambda>i. 5)\<rparr>)
                Map.empty [''hello'', ''blocked'', ''slow''] None None None 4 (1 / 2) ''out''
                empty_world))"
proof -
  let ?ps = "[''hello'', ''blocked'', ''slow'']"
  let ?ev = "sample_env mixed_reply None ?ps [0, 1, 2]"
  have h1: "valid_schedule ?ev ?ps" by code_simp
  have h2: "valid_schedule (?ev\<lparr>schedule := [2, 0, 1], elapsed := (\<lambda>i. 5)\<rparr>) ?ps" by code_simp
  have h3: "(1::int) < 4" by simp
  note T = concurrency_keeps_outcomes [OF h1 h2 h3, of Map.empty None None None "''out''" empty_world
      "1 / 2" empty_world]
  show ?thesis by (intro conjI h1 h2 h3 T)
qed

text \<open>
  C2, as the claim states it, fails: the backend answers the prompt with status 400 and
  the detail reason \<open>content policy violation\<close>, in lower case; the specification's
  classification of that result is ContentFiltered, and the worker's outcome is a Failure.
\<close>

theorem lower_case_reason_not_filtered:
  "map_sum id variant_of
     (fst (process_single_prompt (sample_env policy_reply None [] []) Map.empty
             ''content policy violation'' 0 None None None ''out'' empty_world))
     = Inr Failure
   \<and> map_sum id (spec_classify ''content policy violation'')
       (fst (generate_text (sample_env policy_reply None [] []) Map.empty
               ''content policy violation'' (build_params None None None) empty_world))
     = Inr ContentFiltered"
  by code_simp

text \<open>
  C2, amended. Whenever the worker returns an outcome, its variant is the specification's
  classification of the transport result with the reason text \<open>Content policy violation\<close>
  (capital C, compared exactly): Success for a successful result, ContentFiltered for an
  unsuccessful result with status 400 and that detail reason, Failure for every other
  unsuccessful result. The worker returns an outcome for every unsuccessful result whose
  status is not 400 or whose details are absent or an object, and for every successful
  result whose payload is an object with a string \<open>generated_text\<close> when the output file
  can be opened and the write of that text to it does not fail.
\<close>

theorem worker_classifies:
  assumes gen: "fst (generate_text ev cfg prompt (build_params mt t u) w) = Inr result"
  shows "(\<forall>r w'. process_single_prompt ev cfg prompt index mt t u out w = (Inr r, w') \<longrightarrow>
            variant_of r = spec_classify ''Content policy violation'' result)
       \<and> (\<not> success result
            \<and> (status_code result \<noteq> Some 400 \<or> details result = None
                 \<or> (\<exists>kvs. details result = Some (JObj kvs))) \<longrightarrow>
           (\<exists>r w'. process_single_prompt ev cfg prompt index mt t u out w = (Inr r, w')))
       \<and> (success result \<and> open_error ev (out, result_filename index) = None
            \<and> (\<exists>kvs text. data result = Some (JObj kvs)
                  \<and> map_of kvs ''generated_text'' = Some (JStr text)
                  \<and> write_error ev (out, result_filename index) (Text text) = None) \<longrightarrow>
           (\<exists>r w'. process_single_prompt ev cfg prompt index mt t u out w = (Inr r, w')))"
proof (intro conjI allI impI)
  note g = generate_text_pair [OF gen]
  fix r w'
  assume ret: "process_single_prompt ev cfg prompt index mt t u out w = (Inr r, w')"
  show "variant_of r = spec_classify ''Content policy violation'' result"
  proof (cases "success result")
    case True
    with ret g have "get_success r"
      by (auto simp: process_single_prompt_def Let_def split: prod.splits sum.splits option.splits)
    with True show ?thesis by (simp add: variant_of_def spec_classify_def)
  next
    case False
    with ret g obtain cf where cf: "is_content_filtered result = Inr cf"
      and r: "r = Failure_outcome cf index (truncate_prompt prompt)
                    (case error result of None \<Rightarrow> JStr ''Unknown error'' | Some e \<Rightarrow> e)
                    (elapsed ev index)"
      by (auto simp: process_single_prompt_def Let_def split: sum.splits)
    from r have "variant_of r = (if cf then ContentFiltered else Failure)"
      by (simp add: variant_of_def)
    with is_content_filtered_spec [OF cf False] show ?thesis by simp
  qed
next
  note g = generate_text_pair [OF gen]
  assume a: "\<not> success result
            \<and> (status_code result \<noteq> Some 400 \<or> details result = None
                 \<or> (\<exists>kvs. details result = Some (JObj kvs)))"
  then obtain cf where "is_content_filtered result = Inr cf"
    using is_content_filtered_returns by blast
  with a g show "\<exists>r w'. process_single_prompt ev cfg prompt index mt t u out w = (Inr r, w')"
    by (simp add: process_single_prompt_def Let_def)
next
  note g = generate_text_pair [OF gen]
  assume a: "success result \<and> open_error ev (out, result_filename index) = None
            \<and> (\<exists>kvs text. data result = Some (JObj kvs)
                  \<and> map_of kvs ''generated_text'' = Some (JStr text)
                  \<and> write_error ev (out, result_filename index) (Text text) = None)"
  then obtain kvs gtext where d: "data result = Some (JObj kvs)"
    and t: "map_of kvs ''generated_text'' = Some (JStr gtext)"
    and wr: "write_error ev (out, result_filename index) (Text gtext) = None" by blast
  with a g show "\<exists>r w'. process_single_prompt ev cfg prompt index mt t u out w = (Inr r, w')"
    by (simp add: process_single_prompt_def write_result_def Let_def)
qed

theorem worker_classifies_witness:
  "fst (generate_text (sample_env policy_reply None [] []) Map.empty ''Content policy violation'' (build_params None None None) empty_world)
     = Inr \<lparr>success = False, data = None, error = Some (JStr ''Blocked''),
            details = Some (JObj [(''reason'', JStr ''Content policy violation''),
                                  (''severity'', JStr ''high'')]),
            message = Some (JStr []), status_code = Some 400\<rparr>
   \<and> fst (process_single_prompt (sample_env policy_reply None [] []) Map.empty ''Content policy violation'' 0 None None None ''out'' empty_world)
     = Inr (Failure_outcome True 0 ''Content policy violation'' (JStr ''Blocked'') 1)
   \<and> variant_of (Failure_outcome True 0 ''Content policy violation'' (JStr ''Blocked'') 1)
     = spec_classify ''Content policy violation''
         \<lparr>success = False, data = None, error = Some (JStr ''Blocked''),
            details = Some (JObj [(''reason'', JStr ''Content policy violation''),
                                  (''severity'', JStr ''high'')]),
            message = Some (JStr []), status_code = Some 400\<rparr>
   \<and> variant_of (Failure_outcome True 0 ''Content policy violation'' (JStr ''Blocked'') 1) = ContentFiltered
   \<and> (\<exists>r w'. process_single_prompt (sample_env policy_reply None [] []) Map.empty ''Content policy violation'' 0 None None None ''out'' empty_world = (Inr r, w'))
   \<and> fst (generate_text (sample_env ok_reply None [] []) Map.empty ''hello'' (build_params None None None) empty_world)
     = Inr \<lparr>success = True, data = Some (JObj [(''generated_text'', JStr ''hello'')]), error = None,
            details = None, message = None, status_code = Some 200\<rparr>
   \<and> open_error (sample_env ok_reply None [] []) (''out'', result_filename 0) = None
   \<and> write_error (sample_env ok_reply None [] []) (''out'', result_filename 0) (Text ''hello'') = None
   \<and> (\<exists>r w'. process_single_prompt (sample_env ok_reply None [] []) Map.empty ''hello'' 0 None None None ''out'' empty_world = (Inr r, w'))"
proof -
  let ?res1 = "\<lparr>success = False, data = None, error = Some (JStr ''Blocked''),
            details = Some (JObj [(''reason'', JStr ''Content policy violation''),
                                  (''severity'', JStr ''high'')]),
            message = Some (JStr []), status_code = Some 400\<rparr>"
  let ?x1 = "process_single_prompt (sample_env policy_reply None [] []) Map.empty ''Content policy violation'' 0 None None None ''out'' empty_world"
  let ?r1 = "Failure_outcome True 0 ''Content policy violation'' (JStr ''Blocked'') 1"
  let ?res2 = "\<lparr>success = True, data = Some (JObj [(''generated_text'', JStr ''hello'')]), error = None,
            details = None, message = None, status_code = Some 200\<rparr>"
  have g1: "fst (generate_text (sample_env policy_reply None [] []) Map.empty ''Content policy violation'' (build_params None None None) empty_world) = Inr ?res1"
    by code_simp
  have h1: "fst ?x1 = Inr ?r1" by code_simp
  then have ret1: "?x1 = (Inr ?r1, snd ?x1)" by (simp add: prod_eq_iff)
  have v1: "variant_of ?r1 = ContentFiltered" by (simp add: variant_of_def)
  have b1: "\<not> success ?res1
            \<and> (status_code ?res1 \<noteq> Some 400 \<or> details ?res1 = None
                 \<or> (\<exists>kvs. details ?res1 = Some (JObj kvs)))"
    by simp
  have g2: "fst (generate_text (sample_env ok_reply None [] []) Map.empty ''hello'' (build_params None None None) empty_world) = Inr ?res2"
    by code_simp
  have o2: "open_error (sample_env ok_reply None [] []) (''out'', result_filename 0) = None"
    by (simp add: sample_env_def)
  have x2: "write_error (sample_env ok_reply None [] []) (''out'', result_filename 0) (Text ''hello'') = None"
    by (simp add: sample_env_def)
  have c2: "success ?res2 \<and> open_error (sample_env ok_reply None [] []) (''out'', result_filename 0) = None
            \<and> (\<exists>kvs text. data ?res2 = Some (JObj kvs)
                  \<and> map_of kvs ''generated_text'' = Some (JStr text)
                  \<and> write_error (sample_env ok_reply None [] []) (''out'', result_filename 0) (Text text) = None)"
    using o2 x2 by simp
  note T1 = worker_classifies [OF g1, of 0 "''out''"]
  note T2 = worker_classifies [OF g2, of 0 "''out''"]
  note A = T1 [THEN conjunct1, THEN spec, THEN spec, THEN mp, OF ret1]
  note B = T1 [THEN conjunct2, THEN conjunct1, THEN mp, OF b1]
  note C = T2 [THEN conjunct2, THEN conjunct2, THEN mp, OF c2]
  show ?thesis by (intro conjI g1 h1 A v1 B g2 o2 x2 C)
qed

text \<open>
  C4 describes what the command should do; the code does otherwise. The backend answers
  all three prompts, and the output file of the second cannot be opened. The worker of
  the second prompt raises the error, \<^verbatim>\<open>process_prompts_concurrent\<close> and the command
  raise it too, and no summary is written.
\<close>

theorem write_failure_aborts_batch:
  "map_sum id success
     (fst (generate_text
             (sample_env ok_reply (Some (''out'', ''result_0002.txt'')) [''a'', ''b'', ''c''] [0, 1, 2])
             Map.empty ''b'' (build_params None None None) empty_world)) = Inr True
   \<and> fst (process_single_prompt
            (sample_env ok_reply (Some (''out'', ''result_0002.txt'')) [''a'', ''b'', ''c''] [0, 1, 2])
            Map.empty ''b'' 1 None None None ''out'' empty_world)
       = Inl (OSError ''Permission denied'')
   \<and> fst (process_prompts_concurrent
            (sample_env ok_reply (Some (''out'', ''result_0002.txt'')) [''a'', ''b'', ''c''] [0, 1, 2])
            Map.empty [''a'', ''b'', ''c''] None None None 3 1 ''out'' empty_world)
       = Inl (OSError ''Permission denied'')
   \<and> fst (process
            (sample_env ok_reply (Some (''out'', ''result_0002.txt'')) [''a'', ''b'', ''c''] [0, 1, 2])
            Map.empty ''in.txt'' ''out'' None None None 3 1 empty_world)
       = Inl (OSError ''Permission denied'')
   \<and> files (snd (process
            (sample_env ok_reply (Some (''out'', ''result_0002.txt'')) [''a'', ''b'', ''c''] [0, 1, 2])
            Map.empty ''in.txt'' ''out'' None None None 3 1 empty_world))
         (''out'', ''batch_summary.json'') = None"
  by code_simp

text \<open>
  C8 describes what the command should do; the code does otherwise. With the temperature
  0.0 supplied, the worker leaves it out of the keyword arguments and the request carries
  the configured default 0.7; \<^verbatim>\<open>generate_text\<close> itself, given the temperature 0.0, sends
  0.0. A maximum of 0 tokens and an empty user identifier are dropped the same way.
\<close>

theorem zero_temperature_dropped:
  "posts (snd (process_single_prompt (sample_env ok_reply None [] []) Map.empty ''hi'' 0
                 None (Some 0) None ''out'' empty_world))
     = [\<lparr>p_prompt = ''hi'', p_max_tokens = JInt 1000, p_temperature = JFloat (7 / 10),
         p_user_id = JStr ''cli_user''\<rparr>]
   \<and> posts (snd (generate_text (sample_env ok_reply None [] []) Map.empty ''hi''
                   \<lparr>kw_max_tokens = None, kw_temperature = Some 0, kw_user_id = None\<rparr>
                   empty_world))
     = [\<lparr>p_prompt = ''hi'', p_max_tokens = JInt 1000, p_temperature = JFloat 0,
         p_user_id = JStr ''cli_user''\<rparr>]
   \<and> posts (snd (process_single_prompt (sample_env ok_reply None [] []) Map.empty ''hi'' 0
                   (Some 0) (Some (1 / 2)) (Some []) ''out'' empty_world))
     = [\<lparr>p_prompt = ''hi'', p_max_tokens = JInt 1000, p_temperature = JFloat (1 / 2),
         p_user_id = JStr ''cli_user''\<rparr>]"
  by code_simp




end
